theory Spec2Isabelle
  imports Main "HOL-Library.Multiset"
begin

section \<open>Data model\<close>

text \<open>
  The resolvers of the appointment backend (the resolver module, with
  \<^verbatim>\<open>models/appointment.model.js\<close>) are embedded as pure functions over an explicit
  database state.

  \<^item> An ObjectId is a value of \<open>oid\<close>. \<^verbatim>\<open>toString()\<close> on an ObjectId is injective, so
    an id and its string are identified: the comparison
    \<^verbatim>\<open>appointment.userId.toString() !== user._id.toString()\<close> is \<open>\<noteq>\<close> on \<open>oid\<close>.
  \<^item> A GraphQL \<^verbatim>\<open>ID\<close> argument is a string. A query by id casts it to an ObjectId, and
    the cast fails on a string that is not the rendering of one: the argument is what the
    cast makes of it, an ObjectId or \<open>Malformed\<close>.
  \<^item> A JavaScript \<^verbatim>\<open>Date\<close> is its time value, milliseconds since the epoch, an \<open>int\<close>.
    \<^verbatim>\<open>toISOString()\<close> is injective on dates, so an ISO string is identified with the
    time it renders. A time string of an update input is what \<^verbatim>\<open>new Date(s)\<close> makes of
    it, a date or \<^verbatim>\<open>Invalid Date\<close>; the two required times of a creation input are the
    dates they denote.
  \<^item> A nullable GraphQL input field is absent (\<^verbatim>\<open>undefined\<close> in the resolver),
    \<^verbatim>\<open>null\<close>, or a value.
\<close>

type_synonym oid = nat
type_synonym time = int

datatype gql_id = ObjectId oid | Malformed

datatype jsdate = Date time | InvalidDate

datatype 'a nullable = Undefined | Null | Val 'a

text \<open>
  The errors the resolvers and the persistence layer raise. The first six are the
  \<^verbatim>\<open>Error\<close>s thrown with the messages \<^verbatim>\<open>Authentication required\<close>,
  \<^verbatim>\<open>Appointment not found\<close>, \<^verbatim>\<open>Access denied\<close>, \<^verbatim>\<open>End time must be after start time\<close>,
  \<^verbatim>\<open>Email already in use\<close> and \<^verbatim>\<open>Invalid credentials\<close>; \<open>ValidationError\<close> is the
  rejection by a validator declared on a schema path (\<^verbatim>\<open>required\<close>, \<^verbatim>\<open>enum\<close>);
  \<open>CastError\<close> is the failure to cast a value to the type of its path (a malformed id
  to an ObjectId, \<^verbatim>\<open>Invalid Date\<close> to a date).
\<close>

datatype error =
    AuthenticationRequired
  | NotFound
  | AccessDenied
  | InvalidTimeRange
  | DuplicateEmail
  | InvalidCredentials
  | ValidationError
  | CastError

text \<open>
  Modelled from the spec: the User schema (\<^verbatim>\<open>models/user.model.js\<close>) is not part of
  the sources. The spec gives a user an identifier, a unique email, a password hash, a
  display name, a role (\<^verbatim>\<open>user\<close> or \<^verbatim>\<open>admin\<close>) and a creation timestamp.
\<close>

record user =
  u_id :: oid
  u_email :: string
  u_passwordHash :: string
  u_name :: "string nullable"
  u_role :: string
  u_createdAt :: time

text \<open>
  An appointment document, as \<^verbatim>\<open>AppointmentSchema\<close> declares it. The title is required,
  so a stored title is a string; description and status can hold \<^verbatim>\<open>null\<close> (\<open>None\<close>).
\<close>

record appointment =
  a_id :: oid
  a_title :: string
  a_description :: "string option"
  a_startTime :: time
  a_endTime :: time
  a_userId :: oid
  a_status :: "string option"
  a_createdAt :: time
  a_updatedAt :: time

text \<open>
  The database: the two collections in insertion order, and the next ObjectId the
  driver hands out (it advances with every inserted document).
\<close>

record db =
  db_users :: "user list"
  db_appointments :: "appointment list"
  db_nextId :: oid

text \<open>The transfer objects and the inputs of the GraphQL schema.\<close>

record user_dto =
  ud_id :: oid
  ud_email :: string
  ud_name :: "string nullable"
  ud_role :: string
  ud_createdAt :: time

record appointment_dto =
  ad_id :: oid
  ad_title :: string
  ad_description :: "string option"
  ad_startTime :: time
  ad_endTime :: time
  ad_userId :: oid
  ad_status :: "string option"
  ad_createdAt :: "time option"
  ad_updatedAt :: "time option"

record AuthPayload =
  ap_token :: string
  ap_user :: "user_dto option"

record AppointmentInput =
  in_title :: string
  in_description :: "string nullable"
  in_startTime :: time
  in_endTime :: time
  in_status :: "string nullable"

record AppointmentUpdateInput =
  up_title :: "string nullable"
  up_description :: "string nullable"
  up_startTime :: "jsdate nullable"
  up_endTime :: "jsdate nullable"
  up_status :: "string nullable"

section \<open>Libraries and configuration\<close>

text \<open>
  \<^verbatim>\<open>bcryptjs\<close>, \<^verbatim>\<open>jsonwebtoken\<close> and the configuration module are not part of the
  sources: they are parameters of \<open>register\<close> and \<open>login\<close>. \<open>bcrypt_hash\<close> takes the
  password, the cost factor and the salt it draws; \<open>jwt_sign\<close> takes the subject, the
  secret, the expiry setting and the time of issue; \<open>jwt_verify\<close> takes a token and a
  secret and gives the subject of a token it accepts.
\<close>

record lib =
  bcrypt_hash :: "string \<Rightarrow> nat \<Rightarrow> string \<Rightarrow> string"
  bcrypt_compare :: "string \<Rightarrow> string \<Rightarrow> bool"
  jwt_sign :: "oid \<Rightarrow> string \<Rightarrow> string \<Rightarrow> time \<Rightarrow> string"
  jwt_verify :: "string \<Rightarrow> string \<Rightarrow> oid option"

record config =
  jwtSecret :: string
  jwtExpiresIn :: string


section \<open>Transfer objects\<close>

definition toUserDTO :: "user option \<Rightarrow> user_dto option" where
  "toUserDTO userDoc =
     (case userDoc of
        None \<Rightarrow> None
      | Some u \<Rightarrow>
          Some \<lparr>ud_id = u_id u, ud_email = u_email u, ud_name = u_name u,
                ud_role = u_role u, ud_createdAt = u_createdAt u\<rparr>)"

definition toAppointmentDTO :: "appointment option \<Rightarrow> appointment_dto option" where
  "toAppointmentDTO appointmentDoc =
     (case appointmentDoc of
        None \<Rightarrow> None
      | Some a \<Rightarrow>
          Some \<lparr>ad_id = a_id a, ad_title = a_title a, ad_description = a_description a,
                ad_startTime = a_startTime a, ad_endTime = a_endTime a,
                ad_userId = a_userId a, ad_status = a_status a,
                ad_createdAt = Some (a_createdAt a),
                ad_updatedAt = Some (a_updatedAt a)\<rparr>)"

section \<open>The persistence layer\<close>

subsection \<open>Schema paths of an appointment\<close>

text \<open>
  \<^verbatim>\<open>trim: true\<close> on the title applies \<^verbatim>\<open>String.prototype.trim\<close>: white space and line
  terminators are removed at both ends (of the 8-bit characters: tab, line feed,
  vertical tab, form feed, carriage return, space, no-break space).
\<close>

definition is_space :: "char \<Rightarrow> bool" where
  "is_space c = ((of_char c :: nat) \<in> {9, 10, 11, 12, 13, 32, 160})"

definition trim :: "string \<Rightarrow> string" where
  "trim s = rev (dropWhile is_space (rev (dropWhile is_space s)))"

definition status_enum :: "string list" where
  "status_enum = [''pending'', ''confirmed'', ''cancelled'', ''completed'']"

text \<open>
  The validators of the paths: \<^verbatim>\<open>required\<close> on a string path passes on a non-empty
  string; \<^verbatim>\<open>enum\<close> passes on \<^verbatim>\<open>null\<close> and on the listed values.
\<close>

definition required_ok :: "string \<Rightarrow> bool" where
  "required_ok s = (s \<noteq> [])"

definition enum_ok :: "string option \<Rightarrow> bool" where
  "enum_ok v = (case v of None \<Rightarrow> True | Some s \<Rightarrow> s \<in> set status_enum)"

subsection \<open>Queries\<close>

definition User_findOne :: "string \<Rightarrow> db \<Rightarrow> user option" where
  "User_findOne email st = find (\<lambda>u. u_email u = email) (db_users st)"

text \<open>\<^verbatim>\<open>User.find({}).sort({ createdAt: -1 })\<close>: newest first.\<close>

definition User_find_sorted :: "db \<Rightarrow> user list" where
  "User_find_sorted st = sort_key (\<lambda>u. - u_createdAt u) (db_users st)"

text \<open>
  \<^verbatim>\<open>Appointment.find(filter).sort({ startTime: 1 })\<close>: the filter is \<^verbatim>\<open>{}\<close> (\<open>None\<close>)
  or \<^verbatim>\<open>{ userId: id }\<close> (\<open>Some id\<close>).
\<close>

definition Appointment_find_sorted :: "oid option \<Rightarrow> db \<Rightarrow> appointment list" where
  "Appointment_find_sorted flt st =
     sort_key a_startTime
       (filter (\<lambda>a. case flt of None \<Rightarrow> True | Some i \<Rightarrow> a_userId a = i)
          (db_appointments st))"

text \<open>
  \<^verbatim>\<open>Appointment.findById(id)\<close>: a cast error on a malformed id, else the document with
  that id or \<^verbatim>\<open>null\<close>.
\<close>

definition Appointment_findById :: "gql_id \<Rightarrow> db \<Rightarrow> error + appointment option" where
  "Appointment_findById i st =
     (case i of
        Malformed \<Rightarrow> Inl CastError
      | ObjectId k \<Rightarrow> Inr (find (\<lambda>a. a_id a = k) (db_appointments st)))"

subsection \<open>Creating documents\<close>

text \<open>
  Modelled from the spec: \<^verbatim>\<open>User.create\<close> of the absent User schema. The new user gets
  the next ObjectId, the role \<^verbatim>\<open>user\<close> and the creation time \<open>now\<close>.
\<close>

definition User_create :: "db \<Rightarrow> time \<Rightarrow> string \<Rightarrow> string \<Rightarrow> string nullable \<Rightarrow> user \<times> db" where
  "User_create st now email passwordHash name =
     (let u = \<lparr>u_id = db_nextId st, u_email = email, u_passwordHash = passwordHash,
               u_name = name, u_role = ''user'', u_createdAt = now\<rparr>
      in (u, st\<lparr>db_users := db_users st @ [u], db_nextId := Suc (db_nextId st)\<rparr>))"

text \<open>
  \<^verbatim>\<open>new Appointment({...})\<close>: the title is trimmed, an absent description takes the
  default \<^verbatim>\<open>''\<close> (a \<^verbatim>\<open>null\<close> one stays \<^verbatim>\<open>null\<close>), \<^verbatim>\<open>createdAt\<close> and \<^verbatim>\<open>updatedAt\<close> take
  the default \<^verbatim>\<open>Date.now\<close>, read as \<open>now\<close>.
\<close>

definition new_Appointment ::
  "oid \<Rightarrow> time \<Rightarrow> string \<Rightarrow> string nullable \<Rightarrow> time \<Rightarrow> time \<Rightarrow> oid \<Rightarrow> string \<Rightarrow> appointment" where
  "new_Appointment i now title description startTime endTime userId status =
     \<lparr>a_id = i, a_title = trim title,
      a_description = (case description of Undefined \<Rightarrow> Some [] | Null \<Rightarrow> None | Val d \<Rightarrow> Some d),
      a_startTime = startTime, a_endTime = endTime, a_userId = userId,
      a_status = Some status, a_createdAt = now, a_updatedAt = now\<rparr>"

text \<open>
  The two hooks of the schema. \<^verbatim>\<open>pre('validate')\<close> rejects a document whose end time
  is not after its start time; \<^verbatim>\<open>pre('save')\<close> stamps \<^verbatim>\<open>updatedAt\<close>.
\<close>

definition pre_validate :: "appointment \<Rightarrow> error option" where
  "pre_validate this =
     (if a_endTime this \<le> a_startTime this then Some InvalidTimeRange else None)"

definition pre_save :: "time \<Rightarrow> appointment \<Rightarrow> appointment" where
  "pre_save now this = this\<lparr>a_updatedAt := now\<rparr>"

definition validate_paths :: "appointment \<Rightarrow> bool" where
  "validate_paths a = (required_ok (a_title a) \<and> enum_ok (a_status a))"

text \<open>
  \<^verbatim>\<open>Appointment.create\<close> builds the document and saves it. Saving a document runs
  the \<^verbatim>\<open>pre('validate')\<close> hook, then the validators of the paths, then the
  \<^verbatim>\<open>pre('save')\<close> hook (which reads the clock again: \<open>saved\<close>), then it inserts.
  A failure at any step leaves the collection as it was.
\<close>

definition Appointment_create ::
  "db \<Rightarrow> time \<Rightarrow> time \<Rightarrow> string \<Rightarrow> string nullable \<Rightarrow> time \<Rightarrow> time \<Rightarrow> oid \<Rightarrow> string
     \<Rightarrow> (error + appointment) \<times> db" where
  "Appointment_create st now saved title description startTime endTime userId status =
     (let doc = new_Appointment (db_nextId st) now title description startTime endTime userId status
      in case pre_validate doc of
           Some e \<Rightarrow> (Inl e, st)
         | None \<Rightarrow>
             if \<not> validate_paths doc then (Inl ValidationError, st)
             else
               (let doc' = pre_save saved doc
                in (Inr doc',
                    st\<lparr>db_appointments := db_appointments st @ [doc'],
                       db_nextId := Suc (db_nextId st)\<rparr>)))"

subsection \<open>Updating and deleting by id\<close>

text \<open>
  The object \<^verbatim>\<open>updateData\<close> that \<open>updateAppointment\<close> builds: a key is absent
  (\<open>Undefined\<close>, \<open>None\<close>) or holds a value; \<^verbatim>\<open>updatedAt\<close> is always there. A time
  it holds is a \<^verbatim>\<open>Date\<close> object, which can be \<^verbatim>\<open>Invalid Date\<close>.
\<close>

record updateData =
  upd_title :: "string nullable"
  upd_description :: "string nullable"
  upd_startTime :: "jsdate option"
  upd_endTime :: "jsdate option"
  upd_status :: "string nullable"
  upd_updatedAt :: time

text \<open>
  The update after casting, the \<^verbatim>\<open>$set\<close> that reaches the validators and the
  collection. Casting a key to the type of its path fails on \<^verbatim>\<open>Invalid Date\<close>, and it
  applies the setters of the paths: the title is trimmed.
\<close>

record castedUpdate =
  set_title :: "string nullable"
  set_description :: "string nullable"
  set_startTime :: "time option"
  set_endTime :: "time option"
  set_status :: "string nullable"
  set_updatedAt :: time

definition cast_date :: "jsdate option \<Rightarrow> error + time option" where
  "cast_date v =
     (case v of
        None \<Rightarrow> Inr None
      | Some InvalidDate \<Rightarrow> Inl CastError
      | Some (Date t) \<Rightarrow> Inr (Some t))"

definition cast_update :: "updateData \<Rightarrow> error + castedUpdate" where
  "cast_update d =
     (case cast_date (upd_startTime d) of
        Inl e \<Rightarrow> Inl e
      | Inr startTime \<Rightarrow>
          (case cast_date (upd_endTime d) of
             Inl e \<Rightarrow> Inl e
           | Inr endTime \<Rightarrow>
               Inr \<lparr>set_title = (case upd_title d of Val t \<Rightarrow> Val (trim t) | other \<Rightarrow> other),
                    set_description = upd_description d,
                    set_startTime = startTime,
                    set_endTime = endTime,
                    set_status = upd_status d,
                    set_updatedAt = upd_updatedAt d\<rparr>))"

text \<open>
  \<^verbatim>\<open>runValidators: true\<close> runs the validators of the schema paths on the keys the
  update sets, each on the new value of its own path: \<^verbatim>\<open>required\<close> on a title that is
  set, \<^verbatim>\<open>enum\<close> on a status that is set. The \<^verbatim>\<open>pre('validate')\<close> and \<^verbatim>\<open>pre('save')\<close>
  hooks are document middleware: they run when a document is validated or saved, and a
  \<^verbatim>\<open>findByIdAndUpdate\<close> query validates and saves no document, so neither hook runs
  here, and no validator sees the stored document.
\<close>

definition update_validators :: "castedUpdate \<Rightarrow> bool" where
  "update_validators d =
     ((case set_title d of Undefined \<Rightarrow> True | Null \<Rightarrow> False | Val t \<Rightarrow> required_ok t) \<and>
      (case set_status d of Undefined \<Rightarrow> True | Null \<Rightarrow> enum_ok None | Val s \<Rightarrow> enum_ok (Some s)))"

definition apply_set :: "castedUpdate \<Rightarrow> appointment \<Rightarrow> appointment" where
  "apply_set d a =
     a\<lparr>a_title := (case set_title d of Val t \<Rightarrow> t | other \<Rightarrow> a_title a),
       a_description :=
         (case set_description d of
            Undefined \<Rightarrow> a_description a | Null \<Rightarrow> None | Val x \<Rightarrow> Some x),
       a_startTime := (case set_startTime d of None \<Rightarrow> a_startTime a | Some t \<Rightarrow> t),
       a_endTime := (case set_endTime d of None \<Rightarrow> a_endTime a | Some t \<Rightarrow> t),
       a_status :=
         (case set_status d of
            Undefined \<Rightarrow> a_status a | Null \<Rightarrow> None | Val x \<Rightarrow> Some x),
       a_updatedAt := set_updatedAt d\<rparr>"

text \<open>A query by id touches the first document with that id (ids are unique in a collection).\<close>

fun update_first :: "oid \<Rightarrow> (appointment \<Rightarrow> appointment) \<Rightarrow> appointment list \<Rightarrow> appointment list" where
  "update_first i f [] = []"
| "update_first i f (a # as) = (if a_id a = i then f a # as else a # update_first i f as)"

fun delete_first :: "oid \<Rightarrow> appointment list \<Rightarrow> appointment list" where
  "delete_first i [] = []"
| "delete_first i (a # as) = (if a_id a = i then as else a # delete_first i as)"

text \<open>
  \<^verbatim>\<open>Appointment.findByIdAndUpdate(id, updateData, { new: true, runValidators: true })\<close>:
  the id and the update are cast, the update is validated, then it is applied to the
  document; the result is the document after the update, or \<^verbatim>\<open>null\<close> when there is
  none with that id. A failure leaves the collection as it was.
\<close>

definition Appointment_findByIdAndUpdate ::
  "gql_id \<Rightarrow> updateData \<Rightarrow> db \<Rightarrow> (error + appointment option) \<times> db" where
  "Appointment_findByIdAndUpdate i d st =
     (case i of
        Malformed \<Rightarrow> (Inl CastError, st)
      | ObjectId k \<Rightarrow>
          (case cast_update d of
             Inl e \<Rightarrow> (Inl e, st)
           | Inr d' \<Rightarrow>
               if \<not> update_validators d' then (Inl ValidationError, st)
               else
                 (case find (\<lambda>a. a_id a = k) (db_appointments st) of
                    None \<Rightarrow> (Inr None, st)
                  | Some a \<Rightarrow>
                      (Inr (Some (apply_set d' a)),
                       st\<lparr>db_appointments :=
                            update_first k (apply_set d') (db_appointments st)\<rparr>))))"

definition Appointment_findByIdAndDelete :: "gql_id \<Rightarrow> db \<Rightarrow> error + db" where
  "Appointment_findByIdAndDelete i st =
     (case i of
        Malformed \<Rightarrow> Inl CastError
      | ObjectId k \<Rightarrow> Inr (st\<lparr>db_appointments := delete_first k (db_appointments st)\<rparr>))"

section \<open>Resolvers\<close>

text \<open>
  A resolver takes the database, the user of the request context (\<open>None\<close> is \<^verbatim>\<open>null\<close>)
  and its arguments. A query gives an error or its result; a mutation that writes gives
  that and the database after it. The clock readings, the salt and the libraries are
  arguments.
\<close>

subsection \<open>Query\<close>

definition me :: "user option \<Rightarrow> user_dto option" where
  "me user = (case user of Some u \<Rightarrow> toUserDTO (Some u) | None \<Rightarrow> None)"

text \<open>\<^verbatim>\<open>users: async () => ...\<close> declares no parameter: the context is not looked at.\<close>

definition users :: "db \<Rightarrow> user option \<Rightarrow> error + user_dto option list" where
  "users st user = Inr (map (\<lambda>u. toUserDTO (Some u)) (User_find_sorted st))"

definition appointments :: "db \<Rightarrow> user option \<Rightarrow> error + appointment_dto option list" where
  "appointments st user =
     (case user of
        None \<Rightarrow> Inl AuthenticationRequired
      | Some u \<Rightarrow>
          (let flt = (if u_role u = ''admin'' then None else Some (u_id u));
               found = Appointment_find_sorted flt st
           in Inr (map (\<lambda>a. toAppointmentDTO (Some a)) found)))"

definition appointment :: "db \<Rightarrow> user option \<Rightarrow> gql_id \<Rightarrow> error + appointment_dto option" where
  "appointment st user i =
     (case user of
        None \<Rightarrow> Inl AuthenticationRequired
      | Some u \<Rightarrow>
          (case Appointment_findById i st of
             Inl e \<Rightarrow> Inl e
           | Inr None \<Rightarrow> Inl NotFound
           | Inr (Some a) \<Rightarrow>
               if u_role u \<noteq> ''admin'' \<and> a_userId a \<noteq> u_id u then Inl AccessDenied
               else Inr (toAppointmentDTO (Some a))))"

definition myAppointments :: "db \<Rightarrow> user option \<Rightarrow> error + appointment_dto option list" where
  "myAppointments st user =
     (case user of
        None \<Rightarrow> Inl AuthenticationRequired
      | Some u \<Rightarrow>
          Inr (map (\<lambda>a. toAppointmentDTO (Some a)) (Appointment_find_sorted (Some (u_id u)) st)))"

subsection \<open>Mutation\<close>

definition register ::
  "lib \<Rightarrow> config \<Rightarrow> db \<Rightarrow> string \<Rightarrow> time \<Rightarrow> time \<Rightarrow> string \<Rightarrow> string \<Rightarrow> string nullable
     \<Rightarrow> (error + AuthPayload) \<times> db" where
  "register L cfg st salt now iat email password name =
     (case User_findOne email st of
        Some existing \<Rightarrow> (Inl DuplicateEmail, st)
      | None \<Rightarrow>
          (let passwordHash = bcrypt_hash L password 10 salt;
               (user, st') = User_create st now email passwordHash name;
               token = jwt_sign L (u_id user) (jwtSecret cfg) (jwtExpiresIn cfg) iat
           in (Inr \<lparr>ap_token = token, ap_user = toUserDTO (Some user)\<rparr>, st')))"

definition login ::
  "lib \<Rightarrow> config \<Rightarrow> db \<Rightarrow> time \<Rightarrow> string \<Rightarrow> string \<Rightarrow> error + AuthPayload" where
  "login L cfg st iat email password =
     (case User_findOne email st of
        None \<Rightarrow> Inl InvalidCredentials
      | Some user \<Rightarrow>
          if \<not> bcrypt_compare L password (u_passwordHash user) then Inl InvalidCredentials
          else
            (let token = jwt_sign L (u_id user) (jwtSecret cfg) (jwtExpiresIn cfg) iat
             in Inr \<lparr>ap_token = token, ap_user = toUserDTO (Some user)\<rparr>))"

text \<open>\<^verbatim>\<open>status || 'pending'\<close>: an absent, \<^verbatim>\<open>null\<close> or empty status is \<^verbatim>\<open>pending\<close>.\<close>

definition status_or_pending :: "string nullable \<Rightarrow> string" where
  "status_or_pending status =
     (case status of
        Undefined \<Rightarrow> ''pending''
      | Null \<Rightarrow> ''pending''
      | Val s \<Rightarrow> if s = [] then ''pending'' else s)"

definition createAppointment ::
  "db \<Rightarrow> user option \<Rightarrow> time \<Rightarrow> time \<Rightarrow> AppointmentInput
     \<Rightarrow> (error + appointment_dto option) \<times> db" where
  "createAppointment st user now saved input =
     (case user of
        None \<Rightarrow> (Inl AuthenticationRequired, st)
      | Some u \<Rightarrow>
          (case Appointment_create st now saved (in_title input) (in_description input)
                  (in_startTime input) (in_endTime input) (u_id u)
                  (status_or_pending (in_status input)) of
             (Inl e, st') \<Rightarrow> (Inl e, st')
           | (Inr a, st') \<Rightarrow> (Inr (toAppointmentDTO (Some a)), st')))"

text \<open>
  \<^verbatim>\<open>new Date(x)\<close> on a time of the update input: \<^verbatim>\<open>new Date(null)\<close> is the epoch,
  \<^verbatim>\<open>new Date(undefined)\<close> is \<^verbatim>\<open>Invalid Date\<close>, and a string gives the date or the
  \<^verbatim>\<open>Invalid Date\<close> it parses to.
\<close>

definition new_Date :: "jsdate nullable \<Rightarrow> jsdate" where
  "new_Date x = (case x of Undefined \<Rightarrow> InvalidDate | Null \<Rightarrow> Date 0 | Val d \<Rightarrow> d)"

definition build_updateData :: "time \<Rightarrow> AppointmentUpdateInput \<Rightarrow> updateData" where
  "build_updateData now input =
     \<lparr>upd_title = up_title input,
      upd_description = up_description input,
      upd_startTime =
        (if up_startTime input \<noteq> Undefined then Some (new_Date (up_startTime input)) else None),
      upd_endTime =
        (if up_endTime input \<noteq> Undefined then Some (new_Date (up_endTime input)) else None),
      upd_status = up_status input,
      upd_updatedAt = now\<rparr>"

definition updateAppointment ::
  "db \<Rightarrow> user option \<Rightarrow> time \<Rightarrow> gql_id \<Rightarrow> AppointmentUpdateInput
     \<Rightarrow> (error + appointment_dto option) \<times> db" where
  "updateAppointment st user now i input =
     (case user of
        None \<Rightarrow> (Inl AuthenticationRequired, st)
      | Some u \<Rightarrow>
          (case Appointment_findById i st of
             Inl e \<Rightarrow> (Inl e, st)
           | Inr None \<Rightarrow> (Inl NotFound, st)
           | Inr (Some a) \<Rightarrow>
               if u_role u \<noteq> ''admin'' \<and> a_userId a \<noteq> u_id u then (Inl AccessDenied, st)
               else
                 (case Appointment_findByIdAndUpdate i (build_updateData now input) st of
                    (Inl e, st') \<Rightarrow> (Inl e, st')
                  | (Inr updated, st') \<Rightarrow> (Inr (toAppointmentDTO updated), st'))))"

definition deleteAppointment ::
  "db \<Rightarrow> user option \<Rightarrow> gql_id \<Rightarrow> (error + bool) \<times> db" where
  "deleteAppointment st user i =
     (case user of
        None \<Rightarrow> (Inl AuthenticationRequired, st)
      | Some u \<Rightarrow>
          (case Appointment_findById i st of
             Inl e \<Rightarrow> (Inl e, st)
           | Inr None \<Rightarrow> (Inl NotFound, st)
           | Inr (Some a) \<Rightarrow>
               if u_role u \<noteq> ''admin'' \<and> a_userId a \<noteq> u_id u then (Inl AccessDenied, st)
               else
                 (case Appointment_findByIdAndDelete i st of
                    Inl e \<Rightarrow> (Inl e, st)
                  | Inr st' \<Rightarrow> (Inr True, st'))))"

section \<open>Example data\<close>

text \<open>
  Two users, an administrator, two appointments, and a few inputs, on which the
  properties below are instantiated.
\<close>

definition alice :: user where
  "alice = \<lparr>u_id = 7, u_email = ''alice@example.com'', u_passwordHash = ''h1'',
            u_name = Val ''Alice'', u_role = ''user'', u_createdAt = 10\<rparr>"

definition bob :: user where
  "bob = \<lparr>u_id = 8, u_email = ''bob@example.com'', u_passwordHash = ''h2'',
          u_name = Undefined, u_role = ''user'', u_createdAt = 20\<rparr>"

definition root :: user where
  "root = \<lparr>u_id = 9, u_email = ''root@example.com'', u_passwordHash = ''h3'',
           u_name = Val ''Root'', u_role = ''admin'', u_createdAt = 30\<rparr>"

definition checkup :: appointment where
  "checkup = \<lparr>a_id = 3, a_title = ''Checkup'', a_description = Some [],
              a_startTime = 100, a_endTime = 200, a_userId = 7,
              a_status = Some ''pending'', a_createdAt = 50, a_updatedAt = 50\<rparr>"

definition review :: appointment where
  "review = \<lparr>a_id = 4, a_title = ''Review'', a_description = None,
             a_startTime = 60, a_endTime = 90, a_userId = 8,
             a_status = Some ''confirmed'', a_createdAt = 55, a_updatedAt = 56\<rparr>"

definition db1 :: db where
  "db1 = \<lparr>db_users = [alice, bob, root], db_appointments = [checkup, review],
          db_nextId = 10\<rparr>"

definition late_input :: AppointmentInput where
  "late_input = \<lparr>in_title = ''Late'', in_description = Undefined, in_startTime = 500,
                  in_endTime = 500, in_status = Undefined\<rparr>"

definition only_endTime :: "time \<Rightarrow> AppointmentUpdateInput" where
  "only_endTime t = \<lparr>up_title = Undefined, up_description = Undefined,
                      up_startTime = Undefined, up_endTime = Val (Date t),
                      up_status = Undefined\<rparr>"



definition confirm_input :: AppointmentUpdateInput where
  "confirm_input = \<lparr>up_title = Val '' Checkup (moved) '', up_description = Null,
                     up_startTime = Undefined, up_endTime = Val (Date 250),
                     up_status = Val ''confirmed''\<rparr>"

text \<open>The update \<open>confirm_input\<close> at time 300, after casting.\<close>

definition confirm_cast :: castedUpdate where
  "confirm_cast = \<lparr>set_title = Val ''Checkup (moved)'', set_description = Null,
                    set_startTime = None, set_endTime = Some 250,
                    set_status = Val ''confirmed'', set_updatedAt = 300\<rparr>"

text \<open>
  A toy instance of the libraries: the hash is the password followed by the salt, a
  token is the subject in unary followed by the secret.
\<close>

definition toy_lib :: lib where
  "toy_lib =
     \<lparr>bcrypt_hash = (\<lambda>p c s. p @ ''$'' @ s),
      bcrypt_compare = (\<lambda>p h. take (length p) h = p),
      jwt_sign = (\<lambda>sub k e t. replicate sub (CHR ''x'') @ ''.'' @ k),
      jwt_verify =
        (\<lambda>tok k.
           if drop (Suc (length (takeWhile (\<lambda>c. c = CHR ''x'') tok))) tok = k
           then Some (length (takeWhile (\<lambda>c. c = CHR ''x'') tok)) else None)\<rparr>"

definition cfg1 :: config where
  "cfg1 = \<lparr>jwtSecret = ''secret'', jwtExpiresIn = ''7d''\<rparr>"

definition carol :: user where
  "carol = \<lparr>u_id = 10, u_email = ''carol@example.com'', u_passwordHash = ''pw$ab'',
            u_name = Val ''Carol'', u_role = ''user'', u_createdAt = 400\<rparr>"

definition db2 :: db where
  "db2 = \<lparr>db_users = [alice, bob, root, carol], db_appointments = [checkup, review],
          db_nextId = 11\<rparr>"

section \<open>Auxiliary facts\<close>

lemma find_update_first:
  assumes "\<And>a. a_id (f a) = a_id a"
  shows "find (\<lambda>a. a_id a = i) (update_first i f xs) = map_option f (find (\<lambda>a. a_id a = i) xs)"
  using assms by (induction xs) auto

lemma map_update_first:
  assumes "\<And>a. g (f a) = g a"
  shows "map g (update_first i f xs) = map g xs"
  using assms by (induction xs) auto

lemma apply_set_frame [simp]:
  "a_id (apply_set d a) = a_id a"
  "a_userId (apply_set d a) = a_userId a"
  "a_createdAt (apply_set d a) = a_createdAt a"
  by (simp_all add: apply_set_def)

lemma find_append_fresh:
  "find P xs = None \<Longrightarrow> P x \<Longrightarrow> find P (xs @ [x]) = Some x"
  by (induction xs) (auto split: if_splits)

lemma mset_find_sorted:
  "mset (Appointment_find_sorted flt st) =
     filter_mset (\<lambda>a. case flt of None \<Rightarrow> True | Some i \<Rightarrow> a_userId a = i)
        (mset (db_appointments st))"
  by (simp add: Appointment_find_sorted_def)




text \<open>What the cast makes of the update that \<open>updateAppointment\<close> builds.\<close>

lemma cast_date_new_Date:
  assumes "cast_date (if x \<noteq> Undefined then Some (new_Date x) else None) = Inr v"
  shows "v = (case x of Undefined \<Rightarrow> None | Null \<Rightarrow> Some 0 | Val (Date t) \<Rightarrow> Some t
              | Val InvalidDate \<Rightarrow> None) \<and> x \<noteq> Val InvalidDate"
  using assms
  by (auto simp: cast_date_def new_Date_def split: nullable.splits jsdate.splits)

lemma cast_update_build:
  assumes "cast_update (build_updateData now input) = Inr c"
  shows "set_title c = (case up_title input of Val t \<Rightarrow> Val (trim t) | other \<Rightarrow> other)"
    and "set_description c = up_description input"
    and "set_startTime c =
           (case up_startTime input of
              Undefined \<Rightarrow> None | Null \<Rightarrow> Some 0 | Val (Date t) \<Rightarrow> Some t
            | Val InvalidDate \<Rightarrow> None)"
    and "up_startTime input \<noteq> Val InvalidDate"
    and "set_endTime c =
           (case up_endTime input of
              Undefined \<Rightarrow> None | Null \<Rightarrow> Some 0 | Val (Date t) \<Rightarrow> Some t
            | Val InvalidDate \<Rightarrow> None)"
    and "up_endTime input \<noteq> Val InvalidDate"
    and "set_status c = up_status input"
    and "set_updatedAt c = now"
proof -
  from assms obtain s e where
    s: "cast_date (if up_startTime input \<noteq> Undefined then Some (new_Date (up_startTime input))
                   else None) = Inr s"
    and e: "cast_date (if up_endTime input \<noteq> Undefined then Some (new_Date (up_endTime input))
                   else None) = Inr e"
    and c: "c = \<lparr>set_title = (case up_title input of Val t \<Rightarrow> Val (trim t) | other \<Rightarrow> other),
                 set_description = up_description input, set_startTime = s, set_endTime = e,
                 set_status = up_status input, set_updatedAt = now\<rparr>"
    by (auto simp: cast_update_def build_updateData_def split: sum.splits)
  from cast_date_new_Date [OF s] cast_date_new_Date [OF e] c
  show "set_title c = (case up_title input of Val t \<Rightarrow> Val (trim t) | other \<Rightarrow> other)"
    and "set_description c = up_description input"
    and "set_startTime c =
           (case up_startTime input of
              Undefined \<Rightarrow> None | Null \<Rightarrow> Some 0 | Val (Date t) \<Rightarrow> Some t
            | Val InvalidDate \<Rightarrow> None)"
    and "up_startTime input \<noteq> Val InvalidDate"
    and "set_endTime c =
           (case up_endTime input of
              Undefined \<Rightarrow> None | Null \<Rightarrow> Some 0 | Val (Date t) \<Rightarrow> Some t
            | Val InvalidDate \<Rightarrow> None)"
    and "up_endTime input \<noteq> Val InvalidDate"
    and "set_status c = up_status input"
    and "set_updatedAt c = now"
    by simp_all
qed

text \<open>What a successful \<open>updateAppointment\<close> has done.\<close>

lemma updateAppointment_success:
  assumes "updateAppointment st (Some u) now i input = (Inr r, st')"
  shows "\<exists>k c a. i = ObjectId k \<and> cast_update (build_updateData now input) = Inr c \<and>
             Appointment_findById i st = Inr (Some a) \<and>
             (u_role u = ''admin'' \<or> a_userId a = u_id u) \<and>
             update_validators c \<and>
             Appointment_findById i st' = Inr (Some (apply_set c a)) \<and>
             r = toAppointmentDTO (Some (apply_set c a)) \<and>
             st' = st\<lparr>db_appointments := update_first k (apply_set c) (db_appointments st)\<rparr>"
  using assms
  by (cases i)
    (auto simp: updateAppointment_def Appointment_findByIdAndUpdate_def
        Appointment_findById_def find_update_first
        split: option.splits if_splits prod.splits sum.splits)

text \<open>What a successful \<open>createAppointment\<close> has stored.\<close>

lemma createAppointment_success:
  assumes "createAppointment st (Some u) now saved input = (Inr r, st')"
  shows "\<exists>a. db_appointments st' = db_appointments st @ [a] \<and> r = toAppointmentDTO (Some a) \<and>
             a_userId a = u_id u \<and> a_startTime a < a_endTime a"
  using assms
  by (auto simp: createAppointment_def Appointment_create_def new_Appointment_def
        pre_validate_def pre_save_def Let_def split: if_splits)



lemma findById_db1:
  "Appointment_findById (ObjectId 3) db1 = Inr (Some checkup)"
  "Appointment_findById (ObjectId 4) db1 = Inr (Some review)"
  "Appointment_findById (ObjectId 5) db1 = Inr None"
  by (simp_all add: Appointment_findById_def db1_def checkup_def review_def)

lemma find_db1:
  "find (\<lambda>a. a_id a = 3) (db_appointments db1) = Some checkup"
  "update_first 3 f (db_appointments db1) = [f checkup, review]"
  "delete_first 3 (db_appointments db1) = [review]"
  by (simp_all add: db1_def checkup_def review_def)

lemma roles_db1:
  "u_role alice = ''user''" "u_role bob = ''user''" "u_role root = ''admin''"
  "u_id alice = 7" "u_id bob = 8" "u_id root = 9"
  "a_userId checkup = 7" "a_userId review = 8"
  by (simp_all add: alice_def bob_def root_def checkup_def review_def)

lemma stored_db1:
  "map a_userId (db_appointments db1) = [7, 8]"
  "map a_createdAt (db_appointments db1) = [50, 55]"
  "a_createdAt checkup = 50"
  by (simp_all add: checkup_def review_def db1_def)

lemma trim_example: "trim '' Checkup (moved) '' = ''Checkup (moved)''"
  by (simp add: trim_def is_space_def)

lemma confirm_input_cast:
  "cast_update (build_updateData 300 confirm_input) = Inr confirm_cast"
  by (simp add: cast_update_def cast_date_def build_updateData_def confirm_input_def
        confirm_cast_def new_Date_def trim_example)

lemma confirm_input_valid: "update_validators confirm_cast"
  by (simp add: update_validators_def confirm_cast_def required_ok_def enum_ok_def
        status_enum_def)

lemma update_db1_root:
  "updateAppointment db1 (Some root) 300 (ObjectId 3) confirm_input =
     (Inr (toAppointmentDTO (Some (checkup\<lparr>a_title := ''Checkup (moved)'', a_description := None,
              a_endTime := 250, a_status := Some ''confirmed'', a_updatedAt := 300\<rparr>))),
      db1\<lparr>db_appointments :=
             [checkup\<lparr>a_title := ''Checkup (moved)'', a_description := None,
                a_endTime := 250, a_status := Some ''confirmed'', a_updatedAt := 300\<rparr>,
              review]\<rparr>)"
proof -
  have s: "apply_set confirm_cast checkup =
             checkup\<lparr>a_title := ''Checkup (moved)'', a_description := None,
                a_endTime := 250, a_status := Some ''confirmed'', a_updatedAt := 300\<rparr>"
    by (simp add: apply_set_def confirm_cast_def checkup_def)
  show ?thesis
    by (simp add: updateAppointment_def findById_db1 roles_db1
          Appointment_findByIdAndUpdate_def confirm_input_cast confirm_input_valid find_db1 s)
qed

lemma register_db1_carol:
  "register toy_lib cfg1 db1 ''ab'' 400 401 ''carol@example.com'' ''pw'' (Val ''Carol'') =
     (Inr \<lparr>ap_token = ''xxxxxxxxxx.secret'', ap_user = toUserDTO (Some carol)\<rparr>, db2)"
  by (simp add: register_def User_findOne_def User_create_def Let_def db1_def db2_def
        alice_def bob_def root_def carol_def toy_lib_def cfg1_def toUserDTO_def
        numeral_eq_Suc)

section \<open>The claims\<close>

subsection \<open>C1: the time-range invariant\<close>

text \<open>
  C1 says that every persisted appointment has its end time strictly after its start
  time, because \<open>createAppointment\<close> and \<open>updateAppointment\<close> both reject a resulting
  time range that is not. On creation the \<^verbatim>\<open>pre('validate')\<close> hook does so. On an update
  nothing compares the two times: the owner of the appointment \<open>checkup\<close> (start 100,
  end 200) sets only its end time, to 50, and the update is stored and returned.
\<close>

theorem updateAppointment_stores_invalid_range:
  "updateAppointment db1 (Some alice) 300 (ObjectId 3) (only_endTime 50) =
     (Inr (toAppointmentDTO (Some (checkup\<lparr>a_endTime := 50, a_updatedAt := 300\<rparr>))),
      db1\<lparr>db_appointments := [checkup\<lparr>a_endTime := 50, a_updatedAt := 300\<rparr>, review]\<rparr>) \<and>
   a_startTime (checkup\<lparr>a_endTime := 50, a_updatedAt := 300\<rparr>) = 100 \<and>
   a_endTime (checkup\<lparr>a_endTime := 50, a_updatedAt := 300\<rparr>) = 50"
proof -
  let ?c = "\<lparr>set_title = Undefined, set_description = Undefined, set_startTime = None,
             set_endTime = Some 50, set_status = Undefined, set_updatedAt = 300\<rparr>"
  have c: "cast_update (build_updateData 300 (only_endTime 50)) = Inr ?c"
    by (simp add: cast_update_def cast_date_def build_updateData_def only_endTime_def
          new_Date_def)
  have v: "update_validators ?c"
    by (simp add: update_validators_def)
  have s: "apply_set ?c checkup = checkup\<lparr>a_endTime := 50, a_updatedAt := 300\<rparr>"
    by (simp add: apply_set_def checkup_def)
  have "updateAppointment db1 (Some alice) 300 (ObjectId 3) (only_endTime 50) =
     (Inr (toAppointmentDTO (Some (checkup\<lparr>a_endTime := 50, a_updatedAt := 300\<rparr>))),
      db1\<lparr>db_appointments := [checkup\<lparr>a_endTime := 50, a_updatedAt := 300\<rparr>, review]\<rparr>)"
    by (simp add: updateAppointment_def findById_db1 roles_db1
          Appointment_findByIdAndUpdate_def c v s find_db1)
  then show ?thesis by (simp add: checkup_def)
qed

subsection \<open>C2: authentication\<close>

text \<open>
  C2 lists \<open>users\<close> among the operations that fail with \<open>AuthenticationRequired\<close> on a
  null user context. The resolver \<open>users\<close> does not look at the context: without a user
  it returns the transfer objects of all users.
\<close>

theorem users_unauthenticated_counterexample:
  "users db1 None = Inr [toUserDTO (Some root), toUserDTO (Some bob), toUserDTO (Some alice)] \<and>
   users db1 None \<noteq> Inl AuthenticationRequired"
  by (simp add: users_def User_find_sorted_def db1_def alice_def bob_def root_def)

text \<open>
  C2, amended: each of the six appointment operations (\<open>appointments\<close>, \<open>appointment\<close>,
  \<open>myAppointments\<close>, \<open>createAppointment\<close>, \<open>updateAppointment\<close>, \<open>deleteAppointment\<close>)
  fails with \<open>AuthenticationRequired\<close> on a null user context, whatever the database
  holds and whatever the arguments are, and leaves the database as it was.
\<close>

theorem appointment_operations_require_authentication:
  "appointments st None = Inl AuthenticationRequired \<and>
   appointment st None i = Inl AuthenticationRequired \<and>
   myAppointments st None = Inl AuthenticationRequired \<and>
   createAppointment st None now saved input = (Inl AuthenticationRequired, st) \<and>
   updateAppointment st None now i upd = (Inl AuthenticationRequired, st) \<and>
   deleteAppointment st None i = (Inl AuthenticationRequired, st)"
  by (simp add: appointments_def appointment_def myAppointments_def createAppointment_def
        updateAppointment_def deleteAppointment_def)

text \<open>C2, amended, on the example database.\<close>

theorem appointment_operations_require_authentication_witness:
  "appointments db1 None = Inl AuthenticationRequired \<and>
   appointment db1 None (ObjectId 3) = Inl AuthenticationRequired \<and>
   myAppointments db1 None = Inl AuthenticationRequired \<and>
   createAppointment db1 None 300 301 late_input = (Inl AuthenticationRequired, db1) \<and>
   updateAppointment db1 None 300 (ObjectId 3) confirm_input =
     (Inl AuthenticationRequired, db1) \<and>
   deleteAppointment db1 None (ObjectId 3) = (Inl AuthenticationRequired, db1)"
  using appointment_operations_require_authentication
    [of db1 "ObjectId 3" 300 301 late_input confirm_input]
  by simp

subsection \<open>C3: who sees which appointments\<close>

text \<open>
  C3: for an authenticated caller, \<open>appointments\<close> succeeds; for an administrator the
  result holds every stored appointment, for any other caller exactly the stored
  appointments whose \<open>userId\<close> is the caller's id (as multisets of transfer objects),
  so that no returned appointment belongs to another user.
\<close>

theorem appointments_visibility:
  "\<exists>ds. appointments st (Some u) = Inr ds \<and>
     (u_role u = ''admin'' \<longrightarrow>
        mset ds = image_mset (\<lambda>a. toAppointmentDTO (Some a)) (mset (db_appointments st))) \<and>
     (u_role u \<noteq> ''admin'' \<longrightarrow>
        mset ds = image_mset (\<lambda>a. toAppointmentDTO (Some a))
                    (filter_mset (\<lambda>a. a_userId a = u_id u) (mset (db_appointments st))) \<and>
        (\<forall>d \<in> set ds. map_option ad_userId d = Some (u_id u)))"
proof (cases "u_role u = ''admin''")
  case True
  then show ?thesis
    by (simp add: appointments_def mset_find_sorted)
next
  case False
  have "\<forall>d \<in> set (map (\<lambda>a. toAppointmentDTO (Some a))
                    (Appointment_find_sorted (Some (u_id u)) st)).
          map_option ad_userId d = Some (u_id u)"
    by (auto simp: Appointment_find_sorted_def toAppointmentDTO_def)
  with False show ?thesis
    by (simp add: appointments_def mset_find_sorted)
qed

text \<open>
  C3 on the example database: the administrator gets both appointments, Alice gets
  her own one.
\<close>

theorem appointments_visibility_witness:
  "(\<exists>ds. appointments db1 (Some root) = Inr ds \<and>
         mset ds = {#toAppointmentDTO (Some checkup), toAppointmentDTO (Some review)#}) \<and>
   (\<exists>ds. appointments db1 (Some alice) = Inr ds \<and>
         mset ds = {#toAppointmentDTO (Some checkup)#})"
proof -
  have f: "filter_mset (\<lambda>a. a_userId a = 7) (mset (db_appointments db1)) = {#checkup#}"
    by (simp add: db1_def checkup_def review_def)
  have m: "mset (db_appointments db1) = {#checkup, review#}"
    by (simp add: db1_def)
  show ?thesis
    using appointments_visibility [of db1 root] appointments_visibility [of db1 alice]
    by (simp add: roles_db1 f m)
qed

subsection \<open>C4: access to one appointment\<close>




subsection \<open>C5: creating with an invalid time range\<close>

text \<open>
  C5: for an authenticated caller and an input whose end time is not after its start
  time (equal times included), \<open>createAppointment\<close> fails with \<open>InvalidTimeRange\<close> and
  the database is as it was: no appointment is persisted.
\<close>

theorem createAppointment_rejects_invalid_range:
  assumes "in_endTime input \<le> in_startTime input"
  shows "createAppointment st (Some u) now saved input = (Inl InvalidTimeRange, st)"
  using assms
  by (simp add: createAppointment_def Appointment_create_def new_Appointment_def
        pre_validate_def Let_def)

text \<open>C5 on an input whose two times are equal.\<close>

theorem createAppointment_rejects_invalid_range_witness:
  "in_endTime late_input \<le> in_startTime late_input \<and>
   createAppointment db1 (Some alice) 300 301 late_input = (Inl InvalidTimeRange, db1)"
proof -
  have h: "in_endTime late_input \<le> in_startTime late_input"
    by (simp add: late_input_def)
  show ?thesis
    using h createAppointment_rejects_invalid_range [OF h, of db1 alice 300 301] by simp
qed

subsection \<open>C6: register, then login\<close>



subsection \<open>C7: partial update\<close>

text \<open>
  C7: after a successful \<open>updateAppointment\<close> the stored appointment has, in each of
  title, description, start time, end time and status, the value the input supplies
  (the title trimmed, a \<^verbatim>\<open>null\<close> time read as the epoch) when the input supplies the
  field, and its previous value when it does not; \<open>updatedAt\<close> is the time of the update.
  An update that supplies a \<^verbatim>\<open>null\<close> title or a time that is no date does not succeed.
\<close>

theorem updateAppointment_partial_update:
  assumes "updateAppointment st (Some u) now i input = (Inr r, st')"
  shows "\<exists>a a'. Appointment_findById i st = Inr (Some a) \<and>
            Appointment_findById i st' = Inr (Some a') \<and> r = toAppointmentDTO (Some a') \<and>
            a_title a' = (case up_title input of Val t \<Rightarrow> trim t | other \<Rightarrow> a_title a) \<and>
            up_title input \<noteq> Null \<and>
            a_description a' =
              (case up_description input of
                 Undefined \<Rightarrow> a_description a | Null \<Rightarrow> None | Val x \<Rightarrow> Some x) \<and>
            a_startTime a' =
              (case up_startTime input of
                 Undefined \<Rightarrow> a_startTime a | Null \<Rightarrow> 0 | Val (Date t) \<Rightarrow> t
               | Val InvalidDate \<Rightarrow> a_startTime a) \<and>
            up_startTime input \<noteq> Val InvalidDate \<and>
            a_endTime a' =
              (case up_endTime input of
                 Undefined \<Rightarrow> a_endTime a | Null \<Rightarrow> 0 | Val (Date t) \<Rightarrow> t
               | Val InvalidDate \<Rightarrow> a_endTime a) \<and>
            up_endTime input \<noteq> Val InvalidDate \<and>
            a_status a' =
              (case up_status input of
                 Undefined \<Rightarrow> a_status a | Null \<Rightarrow> None | Val x \<Rightarrow> Some x) \<and>
            a_updatedAt a' = now"
proof -
  from updateAppointment_success [OF assms] obtain c a where
    c: "cast_update (build_updateData now input) = Inr c"
    and a: "Appointment_findById i st = Inr (Some a)"
    and v: "update_validators c"
    and a': "Appointment_findById i st' = Inr (Some (apply_set c a))"
    and r: "r = toAppointmentDTO (Some (apply_set c a))"
    by blast
  note f = cast_update_build [OF c]
  let ?a' = "apply_set c a"
  have "a_title ?a' = (case up_title input of Val t \<Rightarrow> trim t | other \<Rightarrow> a_title a)"
    by (simp add: apply_set_def f(1) split: nullable.splits)
  moreover have "up_title input \<noteq> Null"
    using v by (auto simp: update_validators_def f(1))
  moreover have "a_description ?a' =
      (case up_description input of
         Undefined \<Rightarrow> a_description a | Null \<Rightarrow> None | Val x \<Rightarrow> Some x)"
    by (simp add: apply_set_def f(2))
  moreover have "a_startTime ?a' =
      (case up_startTime input of
         Undefined \<Rightarrow> a_startTime a | Null \<Rightarrow> 0 | Val (Date t) \<Rightarrow> t
       | Val InvalidDate \<Rightarrow> a_startTime a)"
    by (simp add: apply_set_def f(3) split: nullable.splits jsdate.splits)
  moreover have "a_endTime ?a' =
      (case up_endTime input of
         Undefined \<Rightarrow> a_endTime a | Null \<Rightarrow> 0 | Val (Date t) \<Rightarrow> t
       | Val InvalidDate \<Rightarrow> a_endTime a)"
    by (simp add: apply_set_def f(5) split: nullable.splits jsdate.splits)
  moreover have "a_status ?a' =
      (case up_status input of Undefined \<Rightarrow> a_status a | Null \<Rightarrow> None | Val x \<Rightarrow> Some x)"
    by (simp add: apply_set_def f(7))
  moreover have "a_updatedAt ?a' = now"
    by (simp add: apply_set_def f(8))
  ultimately show ?thesis using a a' r f(4) f(6) by blast
qed

text \<open>
  C7 on the example database: the administrator sets title, description, end time and
  status of \<open>checkup\<close>; its start time stays.
\<close>

theorem updateAppointment_partial_update_witness:
  "\<exists>r st' a'. updateAppointment db1 (Some root) 300 (ObjectId 3) confirm_input = (Inr r, st') \<and>
      Appointment_findById (ObjectId 3) st' = Inr (Some a') \<and> r = toAppointmentDTO (Some a') \<and>
      a_title a' = ''Checkup (moved)'' \<and> a_description a' = None \<and>
      a_startTime a' = 100 \<and> a_endTime a' = 250 \<and> a_status a' = Some ''confirmed'' \<and>
      a_updatedAt a' = 300"
proof -
  obtain r st' where
    e: "updateAppointment db1 (Some root) 300 (ObjectId 3) confirm_input = (Inr r, st')"
    using update_db1_root by blast
  from updateAppointment_partial_update [OF e]
  have "\<exists>a'. Appointment_findById (ObjectId 3) st' = Inr (Some a') \<and>
      r = toAppointmentDTO (Some a') \<and>
      a_title a' = ''Checkup (moved)'' \<and> a_description a' = None \<and>
      a_startTime a' = 100 \<and> a_endTime a' = 250 \<and> a_status a' = Some ''confirmed'' \<and>
      a_updatedAt a' = 300"
    by (auto simp: findById_db1 confirm_input_def trim_example checkup_def)
  with e show ?thesis by blast
qed

subsection \<open>C8: registering twice\<close>

text \<open>
  C8: after a successful \<open>register\<close> with an email, any further \<open>register\<close> with that
  email (whatever the password, the name, the salt and the time) fails with
  \<open>DuplicateEmail\<close>, and the database is as it was: no user is created and the first
  user's record is unchanged.
\<close>

theorem register_twice_DuplicateEmail:
  assumes "register L cfg st salt now iat email password name = (Inr p, st')"
  shows "register L' cfg' st' salt' now' iat' email password' name' = (Inl DuplicateEmail, st')"
  using assms
  by (auto simp: register_def User_create_def User_findOne_def Let_def find_append_fresh
        split: option.splits)

text \<open>C8 on the example database: Carol registers, then her email is registered again.\<close>

theorem register_twice_DuplicateEmail_witness:
  "register toy_lib cfg1 db1 ''ab'' 400 401 ''carol@example.com'' ''pw'' (Val ''Carol'') =
     (Inr \<lparr>ap_token = ''xxxxxxxxxx.secret'', ap_user = toUserDTO (Some carol)\<rparr>, db2) \<and>
   register toy_lib cfg1 db2 ''cd'' 500 501 ''carol@example.com'' ''other'' Undefined =
     (Inl DuplicateEmail, db2)"
  using register_db1_carol
    register_twice_DuplicateEmail [OF register_db1_carol, of toy_lib cfg1 "''cd''" 500 501
      "''other''" Undefined]
  by simp

subsection \<open>C9: no password hash in a result\<close>

text \<open>
  C9: a user transfer object is the record of exactly the five fields id, email,
  name, role and createdAt, and \<open>toUserDTO\<close> does not depend on the password hash of the
  user it is made of. What \<open>me\<close> returns is \<open>toUserDTO\<close> of the user of the context;
  what \<open>users\<close> returns are the transfer objects of the stored users; the user in a
  result of \<open>register\<close> or \<open>login\<close> is the transfer object of a stored user.
\<close>

theorem user_results_exclude_passwordHash:
  "(\<forall>d :: user_dto. d = \<lparr>ud_id = ud_id d, ud_email = ud_email d, ud_name = ud_name d,
                          ud_role = ud_role d, ud_createdAt = ud_createdAt d\<rparr>) \<and>
   (\<forall>u h. toUserDTO (Some (u\<lparr>u_passwordHash := h\<rparr>)) = toUserDTO (Some u)) \<and>
   me ctx = toUserDTO ctx \<and>
   (\<exists>ds. users st ctx = Inr ds \<and> set ds = (\<lambda>u. toUserDTO (Some u)) ` set (db_users st)) \<and>
   (\<forall>p st'. register L cfg st salt now iat email password name = (Inr p, st') \<longrightarrow>
       (\<exists>u \<in> set (db_users st'). ap_user p = toUserDTO (Some u))) \<and>
   (\<forall>p. login L cfg st iat email password = Inr p \<longrightarrow>
       (\<exists>u \<in> set (db_users st). ap_user p = toUserDTO (Some u)))"
proof -
  have "\<forall>d :: user_dto. d = \<lparr>ud_id = ud_id d, ud_email = ud_email d, ud_name = ud_name d,
                          ud_role = ud_role d, ud_createdAt = ud_createdAt d\<rparr>"
    by simp
  moreover have "\<forall>u h. toUserDTO (Some (u\<lparr>u_passwordHash := h\<rparr>)) = toUserDTO (Some u)"
    by (simp add: toUserDTO_def)
  moreover have "me ctx = toUserDTO ctx"
    by (simp add: me_def toUserDTO_def split: option.splits)
  moreover have "\<exists>ds. users st ctx = Inr ds \<and>
      set ds = (\<lambda>u. toUserDTO (Some u)) ` set (db_users st)"
    by (simp add: users_def User_find_sorted_def)
  moreover have "\<forall>p st'. register L cfg st salt now iat email password name = (Inr p, st') \<longrightarrow>
       (\<exists>u \<in> set (db_users st'). ap_user p = toUserDTO (Some u))"
    by (auto simp: register_def User_create_def Let_def split: option.splits)
  moreover have "\<forall>p. login L cfg st iat email password = Inr p \<longrightarrow>
       (\<exists>u \<in> set (db_users st). ap_user p = toUserDTO (Some u))"
    by (auto simp: login_def User_findOne_def Let_def find_Some_iff
          split: option.splits if_splits)
  ultimately show ?thesis by blast
qed

text \<open>
  C9 on the example database: the results for Alice and for Carol's registration are
  the same when Alice's stored password hash is another one.
\<close>

theorem user_results_exclude_passwordHash_witness:
  "me (Some (alice\<lparr>u_passwordHash := ''other''\<rparr>)) = me (Some alice) \<and>
   me (Some alice) =
     Some \<lparr>ud_id = 7, ud_email = ''alice@example.com'', ud_name = Val ''Alice'',
           ud_role = ''user'', ud_createdAt = 10\<rparr> \<and>
   (\<exists>u. u \<in> set (db_users db2) \<and>
        ap_user \<lparr>ap_token = ''xxxxxxxxxx.secret'', ap_user = toUserDTO (Some carol)\<rparr> =
          toUserDTO (Some u))"
proof -
  note t = user_results_exclude_passwordHash
    [of "Some alice" db1 toy_lib cfg1 "''ab''" 400 401 "''carol@example.com''" "''pw''"
       "Val ''Carol''"]
  note t' = user_results_exclude_passwordHash
    [of "Some (alice\<lparr>u_passwordHash := ''other''\<rparr>)" db1 toy_lib cfg1 "''ab''" 400 401
       "''carol@example.com''" "''pw''" "Val ''Carol''"]
  have 1: "me (Some (alice\<lparr>u_passwordHash := ''other''\<rparr>)) = me (Some alice)"
    using t t' by simp
  have 2: "me (Some alice) =
     Some \<lparr>ud_id = 7, ud_email = ''alice@example.com'', ud_name = Val ''Alice'',
           ud_role = ''user'', ud_createdAt = 10\<rparr>"
    using t by (simp add: toUserDTO_def alice_def)
  have 3: "\<exists>u. u \<in> set (db_users db2) \<and>
        ap_user \<lparr>ap_token = ''xxxxxxxxxx.secret'', ap_user = toUserDTO (Some carol)\<rparr> =
          toUserDTO (Some u)"
    using t register_db1_carol by blast
  from 1 2 3 show ?thesis by blast
qed

subsection \<open>C10: owner and creation time are kept\<close>

text \<open>
  C10: after a successful \<open>updateAppointment\<close> the stored appointment has the
  \<open>userId\<close> and the \<open>createdAt\<close> it had before, whatever the input is; the same holds
  of every stored appointment.
\<close>

theorem updateAppointment_keeps_owner_and_createdAt:
  assumes "updateAppointment st (Some u) now i input = (Inr r, st')"
  shows "\<exists>a a'. Appointment_findById i st = Inr (Some a) \<and>
            Appointment_findById i st' = Inr (Some a') \<and> r = toAppointmentDTO (Some a') \<and>
            a_userId a' = a_userId a \<and> a_createdAt a' = a_createdAt a \<and>
            map a_userId (db_appointments st') = map a_userId (db_appointments st) \<and>
            map a_createdAt (db_appointments st') = map a_createdAt (db_appointments st)"
proof -
  from updateAppointment_success [OF assms] obtain k c a where
    a: "Appointment_findById i st = Inr (Some a)"
    and a': "Appointment_findById i st' = Inr (Some (apply_set c a))"
    and r: "r = toAppointmentDTO (Some (apply_set c a))"
    and st': "st' = st\<lparr>db_appointments := update_first k (apply_set c) (db_appointments st)\<rparr>"
    by blast
  have "map a_userId (db_appointments st') = map a_userId (db_appointments st)"
    by (simp add: st' map_update_first)
  moreover have "map a_createdAt (db_appointments st') = map a_createdAt (db_appointments st)"
    by (simp add: st' map_update_first)
  ultimately show ?thesis using a a' r by simp
qed

text \<open>
  C10 on the example database: after the administrator's update, \<open>checkup\<close> is still
  Alice's and still created at 50.
\<close>

theorem updateAppointment_keeps_owner_and_createdAt_witness:
  "\<exists>r st' a'. updateAppointment db1 (Some root) 300 (ObjectId 3) confirm_input = (Inr r, st') \<and>
      Appointment_findById (ObjectId 3) st' = Inr (Some a') \<and>
      a_userId a' = 7 \<and> a_createdAt a' = 50 \<and>
      map a_userId (db_appointments st') = [7, 8] \<and>
      map a_createdAt (db_appointments st') = [50, 55]"
proof -
  obtain r st' where
    e: "updateAppointment db1 (Some root) 300 (ObjectId 3) confirm_input = (Inr r, st')"
    using update_db1_root by blast
  from updateAppointment_keeps_owner_and_createdAt [OF e]
  have "\<exists>a'. Appointment_findById (ObjectId 3) st' = Inr (Some a') \<and>
      a_userId a' = 7 \<and> a_createdAt a' = 50 \<and>
      map a_userId (db_appointments st') = [7, 8] \<and>
      map a_createdAt (db_appointments st') = [50, 55]"
    by (auto simp: findById_db1 roles_db1 stored_db1)
  with e show ?thesis by auto
qed

end
